theory Spec2Isabelle
  imports Main "HOL-Library.AList"
begin

section \<open>Data model\<close>

text \<open>
  The verification service (\<^verbatim>\<open>verificationService\<close>) composes a document store
  (Firestore) and an object store (Firebase Storage). Both are external; the model below
  keeps of them what the service relies on: path-addressed records and blobs, operations
  that are awaited one after the other, each of which may fail with an error.
\<close>

text \<open>
  \<^verbatim>\<open>Date.now()\<close> in milliseconds. \<^verbatim>\<open>new Date().toISOString()\<close> renders the same
  reading as text, in a format that preserves the order; the model keeps the reading.
\<close>
type_synonym timestamp = nat

text \<open>The errors of the external stores, passed through as they are.\<close>
datatype error = StoreError string

text \<open>
  Modelled from the spec: the declarations of \<^verbatim>\<open>../types/verification\<close> are not part
  of the sources. The status of a document is one of three literals.
\<close>
datatype doc_status = pending | approved | rejected

text \<open>
  Modelled from the spec: the fields of \<^verbatim>\<open>VerificationDocument\<close>, with \<^verbatim>\<open>id\<close> and
  \<^verbatim>\<open>type\<close> under the names \<open>id_doc\<close> and \<open>type_doc\<close>. The type of a document is a
  string, of which the service names three; the expiry date is optional.
\<close>
record VerificationDocument =
  id_doc :: string
  type_doc :: string
  status :: doc_status
  fileUrl :: string
  fileName :: string
  uploadedAt :: timestamp
  expiryDate :: "string option"

text \<open>
  Modelled from the spec: the fields of \<^verbatim>\<open>VerificationStatus\<close>. The two lists are
  arrays of type names, as \<^verbatim>\<open>updateVerificationStatus\<close> builds them.
\<close>
record VerificationStatus =
  isVerified :: bool
  documentsSubmitted :: bool
  pendingDocuments :: "string list"
  rejectedDocuments :: "string list"
  lastUpdated :: timestamp

text \<open>The browser's \<^verbatim>\<open>File\<close>: a name and the bytes.\<close>
record File =
  name :: string
  bytes :: "nat list"

text \<open>
  What a record of the collection \<^verbatim>\<open>restaurants/{restaurantId}/verification\<close> holds:
  the fields of a document, or the fields of the status singleton (which has no
  \<^verbatim>\<open>type\<close> and no \<^verbatim>\<open>id\<close> field).
\<close>
datatype stored = DocData VerificationDocument | StatusData VerificationStatus

text \<open>
  A record of the collection \<^verbatim>\<open>users\<close> is read and written by the settings page as
  a plain object: field names with values, texts for the form fields and a time for
  \<^verbatim>\<open>lastUpdated\<close>.
\<close>
datatype field_value = Text string | Time timestamp

section \<open>The external stores\<close>

text \<open>
  One awaited call of a store: the time it takes and whether it fails. The list of
  the outcomes to come is part of the world, so that every interleaving of successes
  and failures is an input. Once the list is used up, calls take no time and fail only
  where the store itself refuses them.
\<close>
record outcome =
  elapsed :: nat
  failure :: "error option"

text \<open>
  Besides the two stores the world holds the clock, the lines written by
  \<^verbatim>\<open>console.error\<close>, and a log of the errors that calls of the stores have thrown,
  oldest first; the log is kept only to state what the service does with these errors.

  The client of the document store is set up in \<^verbatim>\<open>../firebase/config\<close>, which is not
  part of the sources. Its setting \<^verbatim>\<open>ignoreUndefinedProperties\<close> decides what a write
  does with a field whose value is \<^verbatim>\<open>undefined\<close>; it is a parameter of the world, and
  false unless the configuration sets it.
\<close>
record world =
  blobs :: "string \<rightharpoonup> File"
  verification :: "string \<Rightarrow> (string \<times> stored) list"
  users :: "string \<rightharpoonup> (string \<rightharpoonup> field_value)"
  ignoreUndefinedProperties :: bool
  clock :: timestamp
  console :: "(string \<times> error) list"
  schedule :: "outcome list"
  thrown :: "error list"

type_synonym 'a io = "world \<Rightarrow> (error + 'a) \<times> world"

definition return :: "'a \<Rightarrow> 'a io" where
  "return x w = (Inr x, w)"

text \<open>A call of a store throws.\<close>
definition throw :: "error \<Rightarrow> 'a io" where
  "throw e w = (Inl e, w\<lparr>thrown := thrown w @ [e]\<rparr>)"

text \<open>\<^verbatim>\<open>await m; k\<close>: the continuation runs only if \<open>m\<close> did not throw.\<close>
definition bind :: "'a io \<Rightarrow> ('a \<Rightarrow> 'b io) \<Rightarrow> 'b io" where
  "bind m k w = (case m w of (Inl e, w') \<Rightarrow> (Inl e, w') | (Inr x, w') \<Rightarrow> k x w')"

text \<open>
  \<^verbatim>\<open>try { m } catch (error) { console.error(msg, error); throw error; }\<close>
\<close>
definition catch_log_rethrow :: "string \<Rightarrow> 'a io \<Rightarrow> 'a io" where
  "catch_log_rethrow msg m w =
     (case m w of
        (Inl e, w') \<Rightarrow> (Inl e, w'\<lparr>console := console w' @ [(msg, e)]\<rparr>)
      | (Inr x, w') \<Rightarrow> (Inr x, w'))"

text \<open>A call of an external store: the next outcome decides, then the store acts.\<close>
definition external :: "'a io \<Rightarrow> 'a io" where
  "external act w =
     (case schedule w of
        [] \<Rightarrow> act w
      | oc # rest \<Rightarrow>
          (let w' = w\<lparr>clock := clock w + elapsed oc, schedule := rest\<rparr>
           in case failure oc of Some e \<Rightarrow> throw e w' | None \<Rightarrow> act w'))"

definition object_not_found :: error where
  "object_not_found = StoreError ''storage/object-not-found''"

text \<open>Object store. A download URL stands for the key it was obtained for.\<close>

definition uploadBytes :: "string \<Rightarrow> File \<Rightarrow> unit io" where
  "uploadBytes key file =
     external (\<lambda>w. (Inr (), w\<lparr>blobs := (blobs w)(key \<mapsto> file)\<rparr>))"

definition getDownloadURL :: "string \<Rightarrow> string io" where
  "getDownloadURL key =
     external (\<lambda>w. if key \<in> dom (blobs w) then (Inr key, w) else throw object_not_found w)"

definition deleteObject :: "string \<Rightarrow> unit io" where
  "deleteObject key =
     external (\<lambda>w. if key \<in> dom (blobs w)
                   then (Inr (), w\<lparr>blobs := (blobs w)(key := None)\<rparr>)
                   else throw object_not_found w)"

text \<open>
  Document store, one collection per restaurant. A collection is a list of (id, data)
  in the order in which \<^verbatim>\<open>getDocs\<close> enumerates it; \<^verbatim>\<open>setDoc\<close> overwrites the
  record of the id or adds one, \<^verbatim>\<open>deleteDoc\<close> of an absent id is not an error.

  The data handed to \<^verbatim>\<open>setDoc\<close> is checked by the client before anything is sent:
  unless \<^verbatim>\<open>ignoreUndefinedProperties\<close> is set, data with a field that is
  \<^verbatim>\<open>undefined\<close> is refused with an error, and with the setting the field is left out.
  The one field of the service that can be \<^verbatim>\<open>undefined\<close> is the \<^verbatim>\<open>expiryDate\<close> of a
  document, when \<^verbatim>\<open>uploadDocument\<close> is called without it.
\<close>

definition invalid_data :: error where
  "invalid_data = StoreError ''invalid-argument''"

fun has_undefined :: "stored \<Rightarrow> bool" where
  "has_undefined (DocData d) = (expiryDate d = None)"
| "has_undefined (StatusData s) = False"

definition setDoc :: "string \<Rightarrow> string \<Rightarrow> stored \<Rightarrow> unit io" where
  "setDoc restaurantId docId data =
     (\<lambda>w. if has_undefined data \<and> \<not> ignoreUndefinedProperties w
          then throw invalid_data w
          else external (\<lambda>w. (Inr (), w\<lparr>verification := (verification w)
                 (restaurantId := AList.update docId data (verification w restaurantId))\<rparr>)) w)"

definition getDoc :: "string \<Rightarrow> string \<Rightarrow> stored option io" where
  "getDoc restaurantId docId =
     external (\<lambda>w. (Inr (map_of (verification w restaurantId) docId), w))"

definition getDocs :: "string \<Rightarrow> (string \<times> stored) list io" where
  "getDocs restaurantId = external (\<lambda>w. (Inr (verification w restaurantId), w))"

definition deleteDoc :: "string \<Rightarrow> string \<Rightarrow> unit io" where
  "deleteDoc restaurantId docId =
     external (\<lambda>w. (Inr (), w\<lparr>verification := (verification w)
        (restaurantId := AList.delete docId (verification w restaurantId))\<rparr>))"

text \<open>\<^verbatim>\<open>Date.now()\<close> and \<^verbatim>\<open>new Date()\<close>.\<close>
definition now :: "timestamp io" where
  "now w = (Inr (clock w), w)"

section \<open>The verification service\<close>

text \<open>A number as a template literal prints it: its decimal digits.\<close>
definition digit_char :: "nat \<Rightarrow> char" where
  "digit_char d = char_of (d + 48)"

fun decimal :: "nat \<Rightarrow> string" where
  "decimal n = (if 10 \<le> n then decimal (n div 10) @ [digit_char (n mod 10)] else [digit_char n])"

declare decimal.simps [simp del]

text \<open>\<^verbatim>\<open>`restaurants/${restaurantId}/verification/${type}_${Date.now()}`\<close>\<close>
definition storage_key :: "string \<Rightarrow> string \<Rightarrow> timestamp \<Rightarrow> string" where
  "storage_key restaurantId type t =
     ''restaurants/'' @ restaurantId @ ''/verification/'' @ type @ ''_'' @ decimal t"

definition required_types :: "string list" where
  "required_types = [''business_license'', ''food_permit'', ''identity'']"

text \<open>
  \<^verbatim>\<open>{ id: doc.id, ...doc.data() }\<close>, then \<^verbatim>\<open>.filter(doc => doc.type)\<close>. The \<^verbatim>\<open>id\<close>
  of the data, when it has one, overrides the id of the record. The filter keeps a record
  whose \<^verbatim>\<open>type\<close> is truthy: present and not the empty string.
\<close>
fun type_field :: "stored \<Rightarrow> string option" where
  "type_field (DocData d) = Some (type_doc d)"
| "type_field (StatusData s) = None"

fun truthy :: "string option \<Rightarrow> bool" where
  "truthy None = False"
| "truthy (Some s) = (s \<noteq> [])"

fun as_document :: "string \<times> stored \<Rightarrow> VerificationDocument option" where
  "as_document (k, DocData d) = (if truthy (type_field (DocData d)) then Some d else None)"
| "as_document (k, StatusData s) = None"

definition getDocuments :: "string \<Rightarrow> VerificationDocument list io" where
  "getDocuments restaurantId =
     catch_log_rethrow ''Error getting verification documents:''
       (bind (getDocs restaurantId) (\<lambda>snapshot.
        return (List.map_filter as_document snapshot)))"

text \<open>
  The \<^verbatim>\<open>forEach\<close> of \<^verbatim>\<open>updateVerificationStatus\<close>. The \<^verbatim>\<open>Set\<close> of pending types
  is the list of its elements in insertion order, which is what \<^verbatim>\<open>Array.from\<close> gives.
\<close>
fun scan :: "VerificationDocument list \<Rightarrow> string list \<times> string list \<Rightarrow> string list \<times> string list" where
  "scan [] acc = acc"
| "scan (d # ds) (pendingDocs, rejectedDocs) =
     scan ds
       (if status d = approved then (removeAll (type_doc d) pendingDocs, rejectedDocs)
        else if status d = rejected then (pendingDocs, rejectedDocs @ [type_doc d])
        else (pendingDocs, rejectedDocs))"

definition compute_status :: "VerificationDocument list \<Rightarrow> timestamp \<Rightarrow> VerificationStatus" where
  "compute_status documents t =
     (case scan documents (required_types, []) of (pendingDocs, rejectedDocs) \<Rightarrow>
        \<lparr> isVerified = (length pendingDocs = 0 \<and> length rejectedDocs = 0),
          documentsSubmitted = (length documents > 0),
          pendingDocuments = pendingDocs,
          rejectedDocuments = rejectedDocs,
          lastUpdated = t \<rparr>)"

definition updateVerificationStatus :: "string \<Rightarrow> VerificationStatus io" where
  "updateVerificationStatus restaurantId =
     catch_log_rethrow ''Error updating verification status:''
       (bind (getDocuments restaurantId) (\<lambda>documents.
        bind now (\<lambda>t.
        let status = compute_status documents t in
        bind (setDoc restaurantId ''status'' (StatusData status)) (\<lambda>_.
        return status))))"

text \<open>
  The id of the new record is generated by the client library (\<^verbatim>\<open>doc(collection(...))\<close>);
  it is a parameter here.
\<close>
definition uploadDocument ::
  "string \<Rightarrow> string \<Rightarrow> File \<Rightarrow> string \<Rightarrow> string option \<Rightarrow> VerificationDocument io" where
  "uploadDocument autoId restaurantId file type expiry =
     catch_log_rethrow ''Error uploading document:''
       (bind now (\<lambda>t0.
        let storageRef = storage_key restaurantId type t0 in
        bind (uploadBytes storageRef file) (\<lambda>_.
        bind (getDownloadURL storageRef) (\<lambda>url.
        bind now (\<lambda>t1.
        let verificationDoc =
              \<lparr> id_doc = autoId, type_doc = type, status = pending, fileUrl = url,
                fileName = name file, uploadedAt = t1, expiryDate = expiry \<rparr> in
        bind (setDoc restaurantId autoId (DocData verificationDoc)) (\<lambda>_.
        bind (updateVerificationStatus restaurantId) (\<lambda>_.
        return verificationDoc)))))))"

definition defaultStatus :: "timestamp \<Rightarrow> VerificationStatus" where
  "defaultStatus t =
     \<lparr> isVerified = False, documentsSubmitted = False,
       pendingDocuments = [''business_license'', ''food_permit'', ''identity''],
       rejectedDocuments = [], lastUpdated = t \<rparr>"

text \<open>
  \<^verbatim>\<open>statusDoc.data() as VerificationStatus\<close> is an unchecked cast: the data of the record
  \<^verbatim>\<open>status\<close> is returned as it is.
\<close>
definition getVerificationStatus :: "string \<Rightarrow> stored io" where
  "getVerificationStatus restaurantId =
     catch_log_rethrow ''Error getting verification status:''
       (bind (getDoc restaurantId ''status'') (\<lambda>statusDoc.
        case statusDoc of
          None \<Rightarrow>
            bind now (\<lambda>t.
            let status = defaultStatus t in
            bind (setDoc restaurantId ''status'' (StatusData status)) (\<lambda>_.
            return (StatusData status)))
        | Some data \<Rightarrow> return data))"

definition deleteDocument :: "string \<Rightarrow> VerificationDocument \<Rightarrow> unit io" where
  "deleteDocument restaurantId document =
     catch_log_rethrow ''Error deleting document:''
       (bind (deleteObject (fileUrl document)) (\<lambda>_.
        bind (deleteDoc restaurantId (id_doc document)) (\<lambda>_.
        bind (updateVerificationStatus restaurantId) (\<lambda>_.
        return ()))))"

section \<open>The settings page\<close>

text \<open>
  Document store, collection \<^verbatim>\<open>users\<close>. \<^verbatim>\<open>updateDoc\<close> sets the given fields of a
  record and leaves its other fields; the store refuses it when the record does not exist.
\<close>

definition not_found :: error where
  "not_found = StoreError ''not-found''"

definition getUserDoc :: "string \<Rightarrow> (string \<rightharpoonup> field_value) option io" where
  "getUserDoc uid = external (\<lambda>w. (Inr (users w uid), w))"

definition updateDoc :: "string \<Rightarrow> (string \<rightharpoonup> field_value) \<Rightarrow> unit io" where
  "updateDoc uid data =
     external (\<lambda>w. case users w uid of
                     None \<Rightarrow> throw not_found w
                   | Some old \<Rightarrow> (Inr (), w\<lparr>users := (users w)(uid \<mapsto> old ++ data)\<rparr>))"

text \<open>The state of the component \<^verbatim>\<open>RestaurantSettings\<close>.\<close>
record page =
  settings :: "string \<rightharpoonup> field_value"
  loading :: bool
  saving :: bool
  error :: string
  success :: string

definition initial_page :: page where
  "initial_page =
     \<lparr> settings = [''restaurantName'' \<mapsto> Text [], ''description'' \<mapsto> Text [],
                    ''cuisine'' \<mapsto> Text [], ''openingHours'' \<mapsto> Text [],
                    ''closingHours'' \<mapsto> Text [], ''address'' \<mapsto> Text [],
                    ''phone'' \<mapsto> Text []],
       loading = True, saving = False, error = [], success = [] \<rparr>"

text \<open>
  \<^verbatim>\<open>setSettings(docSnap.data() as RestaurantSettings)\<close> is an unchecked cast: the
  state takes every field of the record.
\<close>
definition fetchSettings :: "string option \<Rightarrow> page \<Rightarrow> world \<Rightarrow> page \<times> world" where
  "fetchSettings user p w =
     (case user of
        None \<Rightarrow> (p, w)
      | Some uid \<Rightarrow>
          (case getUserDoc uid w of
             (Inr docSnap, w') \<Rightarrow>
               ((case docSnap of Some d \<Rightarrow> p\<lparr>settings := d\<rparr> | None \<Rightarrow> p)\<lparr>loading := False\<rparr>, w')
           | (Inl err, w') \<Rightarrow>
               (p\<lparr>error := ''Failed to load restaurant settings'', loading := False\<rparr>,
                w'\<lparr>console := console w' @ [(''Error fetching settings:'', err)]\<rparr>)))"

definition handleChange :: "string \<Rightarrow> string \<Rightarrow> page \<Rightarrow> page" where
  "handleChange field val p = p\<lparr>settings := (settings p)(field \<mapsto> Text val)\<rparr>"

definition handleSubmit :: "string option \<Rightarrow> page \<Rightarrow> world \<Rightarrow> page \<times> world" where
  "handleSubmit user p w =
     (case user of
        None \<Rightarrow> (p, w)
      | Some uid \<Rightarrow>
          (let p1 = p\<lparr>saving := True, error := [], success := []\<rparr> in
           case bind now (\<lambda>t. updateDoc uid ((settings p1)(''lastUpdated'' \<mapsto> Time t))) w of
             (Inr _, w') \<Rightarrow>
               (p1\<lparr>success := ''Settings updated successfully'', saving := False\<rparr>, w')
           | (Inl err, w') \<Rightarrow>
               (p1\<lparr>error := ''Failed to update settings'', saving := False\<rparr>,
                w'\<lparr>console := console w' @ [(''Error updating settings:'', err)]\<rparr>)))"

text \<open>The fields the form marks \<^verbatim>\<open>required\<close>: the browser submits only when each has text.\<close>
definition required_fields :: "string list" where
  "required_fields = [''restaurantName'', ''description'', ''cuisine'', ''openingHours'',
                      ''closingHours'', ''address'', ''phone'']"

definition populated :: "(string \<rightharpoonup> field_value) \<Rightarrow> string \<Rightarrow> bool" where
  "populated fs f = (case fs f of Some (Text s) \<Rightarrow> s \<noteq> [] | _ \<Rightarrow> False)"

section \<open>Notions used to state the properties\<close>

text \<open>The world after a call of a store that did not fail.\<close>
definition tick :: "world \<Rightarrow> world" where
  "tick w =
     (case schedule w of
        [] \<Rightarrow> w
      | oc # rest \<Rightarrow> w\<lparr>clock := clock w + elapsed oc, schedule := rest\<rparr>)"

definition no_failures :: "outcome list \<Rightarrow> bool" where
  "no_failures ocs = list_all (\<lambda>oc. failure oc = None) ocs"

text \<open>The documents of a collection, as \<^verbatim>\<open>getDocuments\<close> sees them.\<close>
definition documents_of :: "(string \<times> stored) list \<Rightarrow> VerificationDocument list" where
  "documents_of coll = List.map_filter as_document coll"

text \<open>The record \<^verbatim>\<open>status\<close> of a restaurant.\<close>
definition status_record :: "world \<Rightarrow> string \<Rightarrow> stored option" where
  "status_record w restaurantId = map_of (verification w restaurantId) ''status''"

definition has_approved :: "VerificationDocument list \<Rightarrow> string \<Rightarrow> bool" where
  "has_approved documents t = (\<exists>d\<in>set documents. type_doc d = t \<and> status d = approved)"

definition status_invariant :: "VerificationStatus \<Rightarrow> bool" where
  "status_invariant s =
     (isVerified s = (pendingDocuments s = [] \<and> rejectedDocuments s = []))"

text \<open>
  What a run from \<open>w\<close> to \<open>w'\<close> did to the status record of a restaurant: a status
  record found afterwards is the one that was there before, or it meets the invariant.
\<close>
definition status_written_ok :: "string \<Rightarrow> world \<Rightarrow> world \<Rightarrow> bool" where
  "status_written_ok r w w' =
     (case status_record w' r of
        Some (StatusData s) \<Rightarrow> status_record w r = Some (StatusData s) \<or> status_invariant s
      | _ \<Rightarrow> True)"

definition keeps :: "string \<Rightarrow> 'a io \<Rightarrow> bool" where
  "keeps r m = (\<forall>w. status_written_ok r w (snd (m w)))"

text \<open>
  A run from \<open>w\<close> that ends in an error has seen exactly one store call throw, and
  ends in that very error; a run that returns has seen none.
\<close>
definition propagated :: "world \<Rightarrow> (error + 'a) \<times> world \<Rightarrow> bool" where
  "propagated w rw =
     (case rw of
        (Inl e, w') \<Rightarrow> thrown w' = thrown w @ [e]
      | (Inr x, w') \<Rightarrow> thrown w' = thrown w)"

definition propagates :: "'a io \<Rightarrow> bool" where
  "propagates m = (\<forall>w. propagated w (m w))"

text \<open>The records of a collection that have a \<^verbatim>\<open>type\<close> field, in the order of the collection.\<close>
fun typed_record :: "string \<times> stored \<Rightarrow> VerificationDocument option" where
  "typed_record (k, DocData d) = Some d"
| "typed_record (k, StatusData s) = None"

text \<open>The data model gives every document a type that is not the empty text.\<close>
fun well_typed :: "string \<times> stored \<Rightarrow> bool" where
  "well_typed (k, DocData d) = (type_doc d \<noteq> [])"
| "well_typed (k, StatusData s) = True"

text \<open>The ids under which a collection holds an approved document of a type.\<close>
fun approved_of :: "string \<Rightarrow> string \<times> stored \<Rightarrow> bool" where
  "approved_of t (k, DocData d) = (type_doc d = t \<and> status d = approved)"
| "approved_of t (k, StatusData s) = False"

definition approved_ids :: "string \<Rightarrow> (string \<times> stored) list \<Rightarrow> string list" where
  "approved_ids t coll = map fst (filter (approved_of t) coll)"

section \<open>Sample data\<close>

definition sample_file :: File where
  "sample_file = \<lparr> name = ''scan.pdf'', bytes = [37, 80, 68, 70] \<rparr>"

definition sample_doc :: "string \<Rightarrow> string \<Rightarrow> doc_status \<Rightarrow> VerificationDocument" where
  "sample_doc i t st =
     \<lparr> id_doc = i, type_doc = t, status = st, fileUrl = ''blob-'' @ i, fileName = ''scan.pdf'',
       uploadedAt = 0, expiryDate = None \<rparr>"

text \<open>A world with one restaurant, \<^verbatim>\<open>r1\<close>, and a blob for each of its records.\<close>
definition sample_world :: "(string \<times> stored) list \<Rightarrow> outcome list \<Rightarrow> world" where
  "sample_world coll ocs =
     \<lparr> blobs = map_of (map (\<lambda>kx. (''blob-'' @ fst kx, sample_file)) coll),
       verification = (\<lambda>r. if r = ''r1'' then coll else []),
       users = Map.empty, ignoreUndefinedProperties = False, clock = 1000, console = [],
       schedule = ocs, thrown = [] \<rparr>"

definition all_approved :: "(string \<times> stored) list" where
  "all_approved =
     [(''a'', DocData (sample_doc ''a'' ''business_license'' approved)),
      (''b'', DocData (sample_doc ''b'' ''food_permit'' approved)),
      (''c'', DocData (sample_doc ''c'' ''identity'' approved))]"

definition mixed_docs :: "(string \<times> stored) list" where
  "mixed_docs =
     [(''a'', DocData (sample_doc ''a'' ''business_license'' approved)),
      (''b'', DocData (sample_doc ''b'' ''food_permit'' rejected)),
      (''c'', DocData (sample_doc ''c'' ''food_permit'' rejected)),
      (''d'', DocData (sample_doc ''d'' ''identity'' pending))]"

definition only_rejected :: "(string \<times> stored) list" where
  "only_rejected = [(''a'', DocData (sample_doc ''a'' ''identity'' rejected))]"

definition unavailable :: error where
  "unavailable = StoreError ''unavailable''"

definition fails_second :: "outcome list" where
  "fails_second = [\<lparr>elapsed = 3, failure = None\<rparr>, \<lparr>elapsed = 4, failure = Some unavailable\<rparr>]"

definition stored_status :: VerificationStatus where
  "stored_status =
     \<lparr> isVerified = True, documentsSubmitted = True, pendingDocuments = [],
       rejectedDocuments = [], lastUpdated = 900 \<rparr>"

definition verified_restaurant :: "(string \<times> stored) list" where
  "verified_restaurant = all_approved @ [(''status'', StatusData stored_status)]"

definition filled_page :: page where
  "filled_page =
     handleChange ''phone'' ''08012345678''
    (handleChange ''address'' ''12 Marina Road''
    (handleChange ''closingHours'' ''22:00''
    (handleChange ''openingHours'' ''08:00''
    (handleChange ''cuisine'' ''Nigerian''
    (handleChange ''description'' ''Home cooking''
    (handleChange ''restaurantName'' ''Mama Put'' initial_page))))))"

definition users_world :: "(string \<rightharpoonup> (string \<rightharpoonup> field_value)) \<Rightarrow> world" where
  "users_world us =
     \<lparr> blobs = Map.empty, verification = (\<lambda>r. []), users = us,
       ignoreUndefinedProperties = False, clock = 1000, console = [], schedule = [],
       thrown = [] \<rparr>"

definition old_record :: "string \<rightharpoonup> field_value" where
  "old_record = [''role'' \<mapsto> Text ''restaurant'', ''restaurantName'' \<mapsto> Text ''Old name'',
                 ''lastUpdated'' \<mapsto> Time 500]"

text \<open>A field of the record of a user, as a read finds it.\<close>
definition stored_field :: "world \<Rightarrow> string \<Rightarrow> string \<Rightarrow> field_value option" where
  "stored_field w uid field = (case users w uid of None \<Rightarrow> None | Some m \<Rightarrow> m field)"

text \<open>
  A record whose \<^verbatim>\<open>lastUpdated\<close> was written from a browser whose clock is ahead of the
  clock of the sample world, and the page and world after the settings page has loaded it.
\<close>
definition ahead_record :: "string \<rightharpoonup> field_value" where
  "ahead_record =
     [''restaurantName'' \<mapsto> Text ''Mama Put'', ''description'' \<mapsto> Text ''Home cooking'',
      ''cuisine'' \<mapsto> Text ''Nigerian'', ''openingHours'' \<mapsto> Text ''08:00'',
      ''closingHours'' \<mapsto> Text ''22:00'', ''address'' \<mapsto> Text ''12 Marina Road'',
      ''phone'' \<mapsto> Text ''08012345678'', ''lastUpdated'' \<mapsto> Time 1500]"

definition loaded :: "page \<times> world" where
  "loaded = fetchSettings (Some ''u1'') initial_page (users_world [''u1'' \<mapsto> ahead_record])"

section \<open>Calls that do not fail\<close>

lemma tick_fields [simp]:
  "blobs (tick w) = blobs w" "verification (tick w) = verification w"
  "users (tick w) = users w"
  "ignoreUndefinedProperties (tick w) = ignoreUndefinedProperties w"
  "console (tick w) = console w" "thrown (tick w) = thrown w"
  "schedule (tick w) = tl (schedule w)"
  by (simp_all add: tick_def split: list.splits)

lemma external_ok:
  "no_failures (take (Suc n) (schedule w)) \<Longrightarrow> external act w = act (tick w)"
  by (cases "schedule w") (simp_all add: external_def tick_def no_failures_def)

lemma no_failures_tl:
  "no_failures (take (Suc n) ocs) \<Longrightarrow> no_failures (take n (tl ocs))"
  by (cases ocs) (simp_all add: no_failures_def)

section \<open>The recomputation of the status\<close>

text \<open>The loop over the documents, in closed form.\<close>
lemma scan_eq:
  "scan ds (p, r) =
     (filter (\<lambda>t. \<not> has_approved ds t) p,
      r @ map type_doc (filter (\<lambda>d. status d = rejected) ds))"
proof (induction ds arbitrary: p r)
  case Nil
  show ?case by (simp add: has_approved_def)
next
  case (Cons d ds)
  show ?case
    by (cases "status d")
       (auto simp: Cons.IH has_approved_def removeAll_filter_not_eq intro: filter_cong)
qed

lemma compute_status_pending:
  "pendingDocuments (compute_status docs t) = filter (\<lambda>t. \<not> has_approved docs t) required_types"
  by (simp add: compute_status_def scan_eq)

lemma compute_status_rejected:
  "rejectedDocuments (compute_status docs t) = map type_doc (filter (\<lambda>d. status d = rejected) docs)"
  by (simp add: compute_status_def scan_eq)

lemma compute_status_verified:
  "isVerified (compute_status docs t) \<longleftrightarrow>
     (\<forall>t\<in>set required_types. has_approved docs t) \<and> (\<forall>d\<in>set docs. status d \<noteq> rejected)"
  by (simp add: compute_status_def scan_eq filter_empty_conv)

lemma compute_status_submitted:
  "documentsSubmitted (compute_status docs t) \<longleftrightarrow> docs \<noteq> []"
  by (simp add: compute_status_def scan_eq)

lemma compute_status_invariant: "status_invariant (compute_status docs t)"
  by (simp add: compute_status_def scan_eq status_invariant_def)

lemma getDocuments_ok:
  "no_failures (take (Suc n) (schedule w)) \<Longrightarrow>
   getDocuments r w = (Inr (documents_of (verification w r)), tick w)"
  by (simp add: getDocuments_def catch_log_rethrow_def bind_def getDocs_def external_ok return_def
      documents_of_def)

lemma updateVerificationStatus_ok:
  assumes "no_failures (take (Suc (Suc n)) (schedule w))"
  shows "updateVerificationStatus r w =
     (Inr (compute_status (documents_of (verification w r)) (clock (tick w))),
      (tick (tick w))\<lparr>verification := (verification w)
        (r := AList.update ''status''
           (StatusData (compute_status (documents_of (verification w r)) (clock (tick w))))
           (verification w r))\<rparr>)"
proof -
  have 1: "no_failures (take (Suc n) (schedule (tick w)))"
    using assms by (simp add: no_failures_tl)
  show ?thesis
    using getDocuments_ok [OF assms, of r]
    by (simp add: updateVerificationStatus_def catch_log_rethrow_def bind_def now_def setDoc_def
        external_ok [OF 1] return_def Let_def)
qed

lemma updateVerificationStatus_writes:
  assumes "no_failures (take 2 (schedule w))"
  shows "\<exists>w'. updateVerificationStatus r w =
           (Inr (compute_status (documents_of (verification w r)) (clock (tick w))), w') \<and>
         status_record w' r =
           Some (StatusData (compute_status (documents_of (verification w r)) (clock (tick w))))"
proof -
  from assms have "no_failures (take (Suc (Suc 0)) (schedule w))"
    by (simp add: numeral_2_eq_2)
  from updateVerificationStatus_ok [OF this, of r] show ?thesis
    by (simp add: status_record_def AList.update_conv')
qed

text \<open>
  C1. Whatever the collection of a restaurant holds, when the two store calls of
  \<^verbatim>\<open>updateVerificationStatus\<close> do not fail it returns a status and writes it as the
  record \<^verbatim>\<open>status\<close>, and \<^verbatim>\<open>isVerified\<close> of it is true exactly when each of the three
  required types has an approved document and no document at all is rejected. A rejected
  document makes it false also when its type has an approved document as well.
\<close>
theorem isVerified_iff:
  assumes "no_failures (take 2 (schedule w))"
  shows "\<exists>s w'. updateVerificationStatus r w = (Inr s, w') \<and>
           status_record w' r = Some (StatusData s) \<and>
           (isVerified s \<longleftrightarrow>
              (\<forall>t\<in>set required_types. has_approved (documents_of (verification w r)) t) \<and>
              (\<forall>d\<in>set (documents_of (verification w r)). status d \<noteq> rejected))"
  using updateVerificationStatus_writes [OF assms, of r] compute_status_verified
  by blast

theorem isVerified_iff_witness:
  "no_failures (take 2 (schedule (sample_world all_approved []))) \<and>
   (\<exists>s w'. updateVerificationStatus ''r1'' (sample_world all_approved []) = (Inr s, w') \<and>
      status_record w' ''r1'' = Some (StatusData s) \<and> isVerified s)"
proof -
  let ?w = "sample_world all_approved []"
  have h: "no_failures (take 2 (schedule ?w))"
    by (simp add: sample_world_def no_failures_def)
  have d: "(\<forall>t\<in>set required_types. has_approved (documents_of (verification ?w ''r1'')) t) \<and>
           (\<forall>d\<in>set (documents_of (verification ?w ''r1'')). status d \<noteq> rejected)"
    by (simp add: sample_world_def all_approved_def sample_doc_def documents_of_def
        has_approved_def required_types_def)
  from isVerified_iff [OF h, of "''r1''"] d h show ?thesis
    by blast
qed

text \<open>
  C3. When its two store calls do not fail, \<^verbatim>\<open>updateVerificationStatus\<close> writes a record
  whose \<^verbatim>\<open>pendingDocuments\<close> are the three required types without those that have an
  approved document, and whose \<^verbatim>\<open>rejectedDocuments\<close> hold the type of each rejected
  document, one entry per document in the order of the scan, repeats included. The record
  is written whatever the record \<^verbatim>\<open>status\<close> was before.
\<close>
theorem recomputed_lists:
  assumes "no_failures (take 2 (schedule w))"
  shows "\<exists>s w'. updateVerificationStatus r w = (Inr s, w') \<and>
           status_record w' r = Some (StatusData s) \<and>
           pendingDocuments s =
             filter (\<lambda>t. \<not> has_approved (documents_of (verification w r)) t) required_types \<and>
           rejectedDocuments s =
             map type_doc (filter (\<lambda>d. status d = rejected) (documents_of (verification w r)))"
  using updateVerificationStatus_writes [OF assms, of r] compute_status_pending
    compute_status_rejected
  by blast

theorem recomputed_lists_witness:
  "no_failures (take 2 (schedule (sample_world mixed_docs []))) \<and>
   (\<exists>s w'. updateVerificationStatus ''r1'' (sample_world mixed_docs []) = (Inr s, w') \<and>
      status_record w' ''r1'' = Some (StatusData s) \<and>
      pendingDocuments s = [''food_permit'', ''identity''] \<and>
      rejectedDocuments s = [''food_permit'', ''food_permit''])"
proof -
  let ?w = "sample_world mixed_docs []"
  have h: "no_failures (take 2 (schedule ?w))"
    by (simp add: sample_world_def no_failures_def)
  have p: "filter (\<lambda>t. \<not> has_approved (documents_of (verification ?w ''r1'')) t) required_types
             = [''food_permit'', ''identity'']"
    by (simp add: sample_world_def mixed_docs_def sample_doc_def documents_of_def
        has_approved_def required_types_def)
  have q: "map type_doc (filter (\<lambda>d. status d = rejected) (documents_of (verification ?w ''r1'')))
             = [''food_permit'', ''food_permit'']"
    by (simp add: sample_world_def mixed_docs_def sample_doc_def documents_of_def)
  from recomputed_lists [OF h, of "''r1''"] h show ?thesis
    by (simp only: p q)
qed

lemma documents_of_empty_iff:
  "documents_of coll \<noteq> [] \<longleftrightarrow> (\<exists>x\<in>set coll. truthy (type_field (snd x)))"
proof (induction coll)
  case Nil
  show ?case by (simp add: documents_of_def)
next
  case (Cons a coll)
  obtain k x where a: "a = (k, x)" by (cases a)
  from Cons show ?case
    by (cases x) (auto simp: a documents_of_def)
qed

text \<open>
  C10. When its two store calls do not fail, \<^verbatim>\<open>updateVerificationStatus\<close> writes a record
  whose \<^verbatim>\<open>documentsSubmitted\<close> is true exactly when the collection holds a record that
  \<^verbatim>\<open>getDocuments\<close> keeps, that is a document record and not the status singleton. The
  status of the documents plays no part: it is true also when every document is rejected.
\<close>
theorem documentsSubmitted_iff:
  assumes "no_failures (take 2 (schedule w))"
  shows "\<exists>s w'. updateVerificationStatus r w = (Inr s, w') \<and>
           status_record w' r = Some (StatusData s) \<and>
           (documentsSubmitted s \<longleftrightarrow>
              (\<exists>x\<in>set (verification w r). truthy (type_field (snd x))))"
  using updateVerificationStatus_writes [OF assms, of r] compute_status_submitted
    documents_of_empty_iff
  by blast

theorem documentsSubmitted_iff_witness:
  "no_failures (take 2 (schedule (sample_world only_rejected []))) \<and>
   map status (documents_of (verification (sample_world only_rejected []) ''r1'')) = [rejected] \<and>
   (\<exists>s w'. updateVerificationStatus ''r1'' (sample_world only_rejected []) = (Inr s, w') \<and>
      status_record w' ''r1'' = Some (StatusData s) \<and> documentsSubmitted s)"
proof -
  let ?w = "sample_world only_rejected []"
  have h: "no_failures (take 2 (schedule ?w))"
    by (simp add: sample_world_def no_failures_def)
  have r: "map status (documents_of (verification ?w ''r1'')) = [rejected]"
    by (simp add: sample_world_def only_rejected_def sample_doc_def documents_of_def)
  have d: "\<exists>x\<in>set (verification ?w ''r1''). truthy (type_field (snd x))"
    by (simp add: sample_world_def only_rejected_def sample_doc_def)
  from documentsSubmitted_iff [OF h, of "''r1''"] d h r show ?thesis
    by blast
qed

section \<open>The invariant of the status record\<close>

lemma status_written_ok_refl: "status_written_ok r w w"
  by (simp add: status_written_ok_def split: option.splits stored.splits)

lemma status_written_ok_trans:
  "status_written_ok r w w1 \<Longrightarrow> status_written_ok r w1 w2 \<Longrightarrow> status_written_ok r w w2"
  by (auto simp: status_written_ok_def split: option.splits stored.splits)

lemma status_written_ok_cong:
  "status_record w1 r = status_record w r \<Longrightarrow> status_record w1' r = status_record w' r \<Longrightarrow>
   status_written_ok r w1 w1' = status_written_ok r w w'"
  by (simp add: status_written_ok_def split: option.splits stored.splits)

lemma status_written_ok_same:
  "verification w' = verification w \<Longrightarrow> status_written_ok r w w'"
  by (simp add: status_written_ok_def status_record_def split: option.splits stored.splits)

lemma keeps_return: "keeps r (return x)"
  by (simp add: keeps_def return_def status_written_ok_refl)

lemma keeps_now: "keeps r now"
  by (simp add: keeps_def now_def status_written_ok_refl)

lemma keeps_bind:
  assumes "keeps r m" and "\<And>x. keeps r (k x)"
  shows "keeps r (bind m k)"
  unfolding keeps_def
proof
  fix w
  obtain res w1 where m: "m w = (res, w1)" by (cases "m w")
  from assms(1) m have 1: "status_written_ok r w w1"
    by (auto simp: keeps_def dest: spec [of _ w])
  show "status_written_ok r w (snd (bind m k w))"
  proof (cases res)
    case (Inl e)
    with m 1 show ?thesis by (simp add: bind_def)
  next
    case (Inr x)
    from assms(2) [of x] have "status_written_ok r w1 (snd (k x w1))"
      by (simp add: keeps_def)
    with 1 have "status_written_ok r w (snd (k x w1))"
      by (rule status_written_ok_trans)
    with m Inr show ?thesis by (simp add: bind_def)
  qed
qed

lemma keeps_catch:
  assumes "keeps r m"
  shows "keeps r (catch_log_rethrow msg m)"
  unfolding keeps_def
proof
  fix w
  obtain res w1 where m: "m w = (res, w1)" by (cases "m w")
  from assms m have 1: "status_written_ok r w w1"
    by (auto simp: keeps_def dest: spec [of _ w])
  have "status_written_ok r w (w1\<lparr>console := console w1 @ [(msg, e)]\<rparr>) = status_written_ok r w w1" for e
    by (rule status_written_ok_cong) (simp_all add: status_record_def)
  with 1 m show "status_written_ok r w (snd (catch_log_rethrow msg m w))"
    by (cases res) (simp_all add: catch_log_rethrow_def)
qed

lemma keeps_external:
  assumes "keeps r act"
  shows "keeps r (external act)"
  unfolding keeps_def
proof
  fix w
  show "status_written_ok r w (snd (external act w))"
  proof (cases "schedule w")
    case Nil
    with assms show ?thesis by (simp add: external_def keeps_def)
  next
    case (Cons oc rest)
    let ?w = "w\<lparr>clock := clock w + elapsed oc, schedule := rest\<rparr>"
    from assms have "status_written_ok r ?w (snd (act ?w))"
      by (simp add: keeps_def)
    moreover have "status_written_ok r ?w (snd (act ?w)) = status_written_ok r w (snd (act ?w))"
      by (rule status_written_ok_cong) (simp_all add: status_record_def)
    ultimately have "status_written_ok r w (snd (act ?w))" by simp
    with Cons show ?thesis
      by (cases "failure oc")
         (simp_all add: external_def Let_def throw_def status_written_ok_same)
  qed
qed

lemma keeps_same:
  assumes "\<And>w. verification (snd (m w)) = verification w"
  shows "keeps r m"
  using assms by (simp add: keeps_def status_written_ok_same)

lemma keeps_getDocuments: "keeps r' (getDocuments r)"
  unfolding getDocuments_def getDocs_def
  by (intro keeps_catch keeps_bind keeps_external keeps_return keeps_same) simp

lemma keeps_throw: "keeps r (throw e)"
  by (simp add: keeps_def throw_def status_written_ok_same)

lemma keeps_if:
  "keeps r a \<Longrightarrow> keeps r b \<Longrightarrow> keeps r (\<lambda>w. if c w then a w else b w)"
  by (simp add: keeps_def)

lemma keeps_setDoc_doc: "keeps r' (setDoc r k (DocData d))"
  unfolding setDoc_def
  by (intro keeps_if keeps_throw keeps_external)
     (auto simp: keeps_def status_written_ok_def status_record_def AList.update_conv'
        split: option.splits stored.splits)

lemma keeps_setDoc_status: "status_invariant s \<Longrightarrow> keeps r' (setDoc r k (StatusData s))"
  unfolding setDoc_def
  by (intro keeps_if keeps_throw keeps_external)
     (auto simp: keeps_def status_written_ok_def status_record_def AList.update_conv'
        split: option.splits stored.splits)

lemma keeps_deleteDoc: "keeps r' (deleteDoc r k)"
  unfolding deleteDoc_def
  by (intro keeps_external)
     (auto simp: keeps_def status_written_ok_def status_record_def AList.delete_conv'
        split: option.splits stored.splits)

lemma defaultStatus_invariant: "status_invariant (defaultStatus t)"
  by (simp add: defaultStatus_def status_invariant_def)

lemma keeps_updateVerificationStatus: "keeps r' (updateVerificationStatus r)"
  unfolding updateVerificationStatus_def Let_def
  by (intro keeps_catch keeps_bind keeps_getDocuments keeps_now keeps_return
      keeps_setDoc_status compute_status_invariant)

lemma keeps_getVerificationStatus: "keeps r' (getVerificationStatus r)"
  unfolding getVerificationStatus_def Let_def getDoc_def
  apply (intro keeps_catch keeps_bind keeps_external)
   apply (rule keeps_same, simp)
  subgoal for statusDoc
    by (cases statusDoc)
       (auto intro!: keeps_bind keeps_now keeps_return keeps_setDoc_status
          defaultStatus_invariant)
  done

lemma keeps_uploadDocument: "keeps r' (uploadDocument a r f t x)"
  unfolding uploadDocument_def Let_def uploadBytes_def getDownloadURL_def
  by (intro keeps_catch keeps_bind keeps_now keeps_external keeps_setDoc_doc
      keeps_updateVerificationStatus keeps_return keeps_same)
     (simp_all add: throw_def)

lemma keeps_deleteDocument: "keeps r' (deleteDocument r d)"
  unfolding deleteDocument_def deleteObject_def
  by (intro keeps_catch keeps_bind keeps_external keeps_deleteDoc
      keeps_updateVerificationStatus keeps_return keeps_same)
     (simp_all add: throw_def)

text \<open>
  C2. The two status records that the service builds, the default of
  \<^verbatim>\<open>getVerificationStatus\<close> and the recomputed one of \<^verbatim>\<open>updateVerificationStatus\<close>,
  have \<^verbatim>\<open>isVerified\<close> equal to "nothing pending and nothing rejected". And whatever a
  method of the service does, on whatever world and with whatever failures of the stores,
  a status record found afterwards for any restaurant is the one that was there before
  or meets this invariant.
\<close>
theorem status_invariant_written:
  "status_invariant (defaultStatus t) \<and>
   status_invariant (compute_status documents t) \<and>
   status_written_ok r' w (snd (getVerificationStatus r w)) \<and>
   status_written_ok r' w (snd (getDocuments r w)) \<and>
   status_written_ok r' w (snd (updateVerificationStatus r w)) \<and>
   status_written_ok r' w (snd (uploadDocument a r f ty x w)) \<and>
   status_written_ok r' w (snd (deleteDocument r d w))"
  using keeps_getVerificationStatus [of r' r] keeps_getDocuments [of r' r]
    keeps_updateVerificationStatus [of r' r] keeps_uploadDocument [of r' a r f ty x]
    keeps_deleteDocument [of r' r d]
  by (simp add: keeps_def defaultStatus_invariant compute_status_invariant)

lemma mixed_status:
  "compute_status (documents_of mixed_docs) t =
     \<lparr> isVerified = False, documentsSubmitted = True,
       pendingDocuments = [''food_permit'', ''identity''],
       rejectedDocuments = [''food_permit'', ''food_permit''], lastUpdated = t \<rparr>"
  by (simp add: compute_status_def mixed_docs_def sample_doc_def documents_of_def
      required_types_def)

theorem status_invariant_written_witness:
  "status_written_ok ''r1'' (sample_world mixed_docs [])
     (snd (updateVerificationStatus ''r1'' (sample_world mixed_docs []))) \<and>
   status_record (sample_world mixed_docs []) ''r1'' = None \<and>
   status_record (snd (updateVerificationStatus ''r1'' (sample_world mixed_docs []))) ''r1'' =
     Some (StatusData \<lparr> isVerified = False, documentsSubmitted = True,
       pendingDocuments = [''food_permit'', ''identity''],
       rejectedDocuments = [''food_permit'', ''food_permit''], lastUpdated = 1000 \<rparr>)"
proof -
  let ?w = "sample_world mixed_docs []"
  have h: "no_failures (take (Suc (Suc 0)) (schedule ?w))"
    by (simp add: sample_world_def no_failures_def)
  have v: "verification ?w ''r1'' = mixed_docs" "clock (tick ?w) = 1000"
    by (simp_all add: sample_world_def tick_def)
  have n: "status_record ?w ''r1'' = None"
    by (simp add: status_record_def sample_world_def mixed_docs_def)
  from status_invariant_written [of 0 "[]" "''r1''" ?w "''r1''"]
  have "status_written_ok ''r1'' ?w (snd (updateVerificationStatus ''r1'' ?w))"
    by simp
  with n show ?thesis
    by (simp add: updateVerificationStatus_ok [OF h] status_record_def AList.update_conv' v
        mixed_status)
qed

section \<open>Errors of the stores\<close>

lemma propagates_return: "propagates (return x)"
  by (simp add: propagates_def propagated_def return_def)

lemma propagates_now: "propagates now"
  by (simp add: propagates_def propagated_def now_def)

lemma propagates_bind:
  assumes "propagates m" and "\<And>x. propagates (k x)"
  shows "propagates (bind m k)"
  unfolding propagates_def
proof
  fix w
  obtain res w1 where m: "m w = (res, w1)" by (cases "m w")
  show "propagated w (bind m k w)"
  proof (cases res)
    case (Inl e)
    with m assms(1) show ?thesis
      by (auto simp: bind_def propagates_def propagated_def dest: spec [of _ w])
  next
    case (Inr x)
    obtain res2 w2 where k: "k x w1 = (res2, w2)" by (cases "k x w1")
    from m Inr assms(1) have "thrown w1 = thrown w"
      by (auto simp: propagates_def propagated_def dest: spec [of _ w])
    moreover from k assms(2) [of x] have "propagated w1 (res2, w2)"
      by (auto simp: propagates_def dest: spec [of _ w1])
    ultimately show ?thesis
      using m Inr k by (simp add: bind_def propagated_def split: sum.splits)
  qed
qed

lemma propagates_catch:
  assumes "propagates m"
  shows "propagates (catch_log_rethrow msg m)"
  unfolding propagates_def
proof
  fix w
  obtain res w1 where m: "m w = (res, w1)" by (cases "m w")
  with assms show "propagated w (catch_log_rethrow msg m w)"
    by (auto simp: catch_log_rethrow_def propagates_def propagated_def dest: spec [of _ w]
        split: sum.splits)
qed

lemma propagates_external:
  assumes "propagates act"
  shows "propagates (external act)"
  unfolding propagates_def
proof
  fix w
  show "propagated w (external act w)"
  proof (cases "schedule w")
    case Nil
    with assms show ?thesis
      by (simp add: external_def propagates_def)
  next
    case (Cons oc rest)
    let ?w = "w\<lparr>clock := clock w + elapsed oc, schedule := rest\<rparr>"
    obtain res w1 where a: "act ?w = (res, w1)" by (cases "act ?w")
    with assms have "propagated w (res, w1)"
      by (auto simp: propagates_def propagated_def dest: spec [of _ ?w] split: sum.splits)
    with Cons a show ?thesis
      by (cases "failure oc") (simp_all add: external_def throw_def Let_def propagated_def)
  qed
qed

lemma propagates_getDocuments: "propagates (getDocuments r)"
  unfolding getDocuments_def getDocs_def
  by (intro propagates_catch propagates_bind propagates_external propagates_return)
     (simp add: propagates_def propagated_def)

lemma propagates_throw: "propagates (throw e)"
  by (simp add: propagates_def propagated_def throw_def)

lemma propagates_if:
  "propagates a \<Longrightarrow> propagates b \<Longrightarrow> propagates (\<lambda>w. if c w then a w else b w)"
  by (simp add: propagates_def)

lemma propagates_setDoc: "propagates (setDoc r k v)"
  unfolding setDoc_def
  by (intro propagates_if propagates_throw propagates_external)
     (simp add: propagates_def propagated_def)

lemma propagates_updateVerificationStatus: "propagates (updateVerificationStatus r)"
  unfolding updateVerificationStatus_def Let_def
  by (intro propagates_catch propagates_bind propagates_getDocuments propagates_now
      propagates_setDoc propagates_return)

lemma propagates_uploadDocument: "propagates (uploadDocument a r f t x)"
  unfolding uploadDocument_def Let_def uploadBytes_def getDownloadURL_def
  by (intro propagates_catch propagates_bind propagates_now propagates_external
      propagates_setDoc propagates_updateVerificationStatus propagates_return)
     (simp_all add: propagates_def propagated_def throw_def)

lemma propagates_getVerificationStatus: "propagates (getVerificationStatus r)"
  unfolding getVerificationStatus_def Let_def getDoc_def
  apply (intro propagates_catch propagates_bind propagates_external)
   apply (simp add: propagates_def propagated_def)
  subgoal for statusDoc
    by (cases statusDoc)
       (auto intro!: propagates_bind propagates_now propagates_setDoc propagates_return)
  done

lemma propagates_deleteDocument: "propagates (deleteDocument r d)"
  unfolding deleteDocument_def deleteObject_def deleteDoc_def
  by (intro propagates_catch propagates_bind propagates_external
      propagates_updateVerificationStatus propagates_return)
     (simp_all add: propagates_def propagated_def throw_def)

text \<open>
  C9. Each of the five methods of the service, run on any world: when it ends in an
  error, exactly one call of a store has thrown during the run and the method ends in
  that very error; when it returns, no call of a store has thrown.
\<close>
theorem errors_propagate_unchanged:
  "propagated w (uploadDocument a r f ty x w) \<and>
   propagated w (getVerificationStatus r w) \<and>
   propagated w (getDocuments r w) \<and>
   propagated w (updateVerificationStatus r w) \<and>
   propagated w (deleteDocument r d w)"
  using propagates_uploadDocument [of a r f ty x] propagates_getVerificationStatus [of r]
    propagates_getDocuments [of r] propagates_updateVerificationStatus [of r]
    propagates_deleteDocument [of r d]
  by (simp add: propagates_def)

lemma update_fails_second:
  "fst (updateVerificationStatus ''r1'' (sample_world mixed_docs fails_second)) = Inl unavailable"
  by (simp add: updateVerificationStatus_def getDocuments_def getDocs_def setDoc_def now_def
      bind_def catch_log_rethrow_def external_def return_def throw_def Let_def
      sample_world_def fails_second_def)

theorem errors_propagate_unchanged_witness:
  "fst (updateVerificationStatus ''r1'' (sample_world mixed_docs fails_second)) = Inl unavailable \<and>
   thrown (snd (updateVerificationStatus ''r1'' (sample_world mixed_docs fails_second)))
     = [unavailable]"
proof -
  let ?w = "sample_world mixed_docs fails_second"
  obtain res w' where u: "updateVerificationStatus ''r1'' ?w = (res, w')"
    by (cases "updateVerificationStatus ''r1'' ?w")
  with update_fails_second have res: "res = Inl unavailable" by simp
  from errors_propagate_unchanged [of ?w _ "''r1''"] u
  have "propagated ?w (res, w')" by simp
  with res have "thrown w' = thrown ?w @ [unavailable]"
    by (simp add: propagated_def)
  with u res show ?thesis by (simp add: sample_world_def)
qed

section \<open>Reading the status\<close>

text \<open>
  C4. When the restaurant has no record \<^verbatim>\<open>status\<close> and the two store calls do not
  fail, \<^verbatim>\<open>getVerificationStatus\<close> returns the default status (not verified, nothing
  submitted, the three required types pending, nothing rejected, the time of the clock) and
  the same record is the stored status when it returns. When the record exists and the
  read does not fail, its data is returned as it is and no store is changed.
\<close>
theorem getVerificationStatus_lazy_init:
  "(status_record w r = None \<and> no_failures (take 2 (schedule w)) \<longrightarrow>
      (\<exists>t w'. getVerificationStatus r w =
                (Inr (StatusData \<lparr> isVerified = False, documentsSubmitted = False,
                   pendingDocuments = [''business_license'', ''food_permit'', ''identity''],
                   rejectedDocuments = [], lastUpdated = t \<rparr>), w') \<and>
              status_record w' r =
                Some (StatusData \<lparr> isVerified = False, documentsSubmitted = False,
                   pendingDocuments = [''business_license'', ''food_permit'', ''identity''],
                   rejectedDocuments = [], lastUpdated = t \<rparr>) \<and>
              t = clock (tick w))) \<and>
   (status_record w r = Some data \<and> no_failures (take 1 (schedule w)) \<longrightarrow>
      (\<exists>w'. getVerificationStatus r w = (Inr data, w') \<and>
            verification w' = verification w \<and> blobs w' = blobs w \<and> users w' = users w))"
proof (intro conjI impI)
  assume a: "status_record w r = None \<and> no_failures (take 2 (schedule w))"
  then have 1: "no_failures (take (Suc (Suc 0)) (schedule w))"
    by (simp add: numeral_2_eq_2)
  then have 2: "no_failures (take (Suc 0) (schedule (tick w)))"
    by (simp add: no_failures_tl)
  from a have n: "map_of (verification w r) ''status'' = None"
    by (simp add: status_record_def)
  show "\<exists>t w'. getVerificationStatus r w =
                (Inr (StatusData \<lparr> isVerified = False, documentsSubmitted = False,
                   pendingDocuments = [''business_license'', ''food_permit'', ''identity''],
                   rejectedDocuments = [], lastUpdated = t \<rparr>), w') \<and>
              status_record w' r =
                Some (StatusData \<lparr> isVerified = False, documentsSubmitted = False,
                   pendingDocuments = [''business_license'', ''food_permit'', ''identity''],
                   rejectedDocuments = [], lastUpdated = t \<rparr>) \<and>
              t = clock (tick w)"
    by (simp add: getVerificationStatus_def catch_log_rethrow_def bind_def getDoc_def
        external_ok [OF 1] external_ok [OF 2] n now_def setDoc_def return_def Let_def
        defaultStatus_def status_record_def AList.update_conv')
next
  assume a: "status_record w r = Some data \<and> no_failures (take 1 (schedule w))"
  then have 1: "no_failures (take (Suc 0) (schedule w))" by simp
  from a have n: "map_of (verification w r) ''status'' = Some data"
    by (simp add: status_record_def)
  show "\<exists>w'. getVerificationStatus r w = (Inr data, w') \<and>
            verification w' = verification w \<and> blobs w' = blobs w \<and> users w' = users w"
    by (simp add: getVerificationStatus_def catch_log_rethrow_def bind_def getDoc_def
        external_ok [OF 1] n return_def)
qed

theorem getVerificationStatus_lazy_init_witness:
  "status_record (sample_world all_approved []) ''r1'' = None \<and>
   no_failures (take 2 (schedule (sample_world all_approved []))) \<and>
   fst (getVerificationStatus ''r1'' (sample_world all_approved [])) =
     Inr (StatusData \<lparr> isVerified = False, documentsSubmitted = False,
            pendingDocuments = [''business_license'', ''food_permit'', ''identity''],
            rejectedDocuments = [], lastUpdated = 1000 \<rparr>) \<and>
   status_record (sample_world verified_restaurant []) ''r1'' = Some (StatusData stored_status) \<and>
   no_failures (take 1 (schedule (sample_world verified_restaurant []))) \<and>
   fst (getVerificationStatus ''r1'' (sample_world verified_restaurant [])) =
     Inr (StatusData stored_status) \<and>
   verification (snd (getVerificationStatus ''r1'' (sample_world verified_restaurant []))) =
     verification (sample_world verified_restaurant [])"
proof -
  let ?w = "sample_world all_approved []"
  let ?v = "sample_world verified_restaurant []"
  have a: "status_record ?w ''r1'' = None \<and> no_failures (take 2 (schedule ?w))"
    by (simp add: status_record_def sample_world_def all_approved_def no_failures_def)
  have b: "status_record ?v ''r1'' = Some (StatusData stored_status) \<and>
           no_failures (take 1 (schedule ?v))"
    by (simp add: status_record_def sample_world_def all_approved_def verified_restaurant_def
        no_failures_def)
  have t: "clock (tick ?w) = 1000"
    by (simp add: tick_def sample_world_def)
  from getVerificationStatus_lazy_init [of ?w "''r1''"] a t
  have 1: "fst (getVerificationStatus ''r1'' ?w) =
     Inr (StatusData \<lparr> isVerified = False, documentsSubmitted = False,
            pendingDocuments = [''business_license'', ''food_permit'', ''identity''],
            rejectedDocuments = [], lastUpdated = 1000 \<rparr>)"
    by auto
  from getVerificationStatus_lazy_init [of ?v "''r1''" "StatusData stored_status"] b
  have 2: "fst (getVerificationStatus ''r1'' ?v) = Inr (StatusData stored_status) \<and>
           verification (snd (getVerificationStatus ''r1'' ?v)) = verification ?v"
    by auto
  from a b 1 2 show ?thesis by simp
qed

section \<open>Deleting a document\<close>

text \<open>
  C8. \<^verbatim>\<open>deleteDocument\<close> on a document whose blob exists, by the outcome of its first
  store calls. If the first call fails, blob and record are still there. If the first
  succeeds and the second fails, the method ends in the error of the second call, the blob
  is gone and the collection is what it was, the record of the document included: nothing
  is undone. If both succeed and the third call fails, blob and record are gone. So the
  blob is deleted first, then the record, then the status is recomputed.
\<close>
theorem deleteDocument_partial_failure:
  assumes "schedule w = o1 # o2 # rest" and "fileUrl d \<in> dom (blobs w)"
  shows "(failure o1 = Some e \<longrightarrow>
           (\<exists>w'. deleteDocument r d w = (Inl e, w') \<and> blobs w' = blobs w \<and>
                 verification w' = verification w)) \<and>
         (failure o1 = None \<and> failure o2 = Some e \<longrightarrow>
           (\<exists>w'. deleteDocument r d w = (Inl e, w') \<and>
                 blobs w' = (blobs w)(fileUrl d := None) \<and>
                 verification w' = verification w)) \<and>
         (failure o1 = None \<and> failure o2 = None \<and> rest = o3 # rest' \<and> failure o3 = Some e \<longrightarrow>
           (\<exists>w'. deleteDocument r d w = (Inl e, w') \<and>
                 blobs w' = (blobs w)(fileUrl d := None) \<and>
                 verification w' = (verification w)
                   (r := AList.delete (id_doc d) (verification w r))))"
  using assms
  by (auto simp: deleteDocument_def deleteObject_def deleteDoc_def updateVerificationStatus_def
      getDocuments_def getDocs_def catch_log_rethrow_def bind_def external_def throw_def
      Let_def)

theorem deleteDocument_partial_failure_witness:
  "schedule (sample_world all_approved fails_second) =
     [\<lparr>elapsed = 3, failure = None\<rparr>, \<lparr>elapsed = 4, failure = Some unavailable\<rparr>] \<and>
   fileUrl (sample_doc ''c'' ''identity'' approved) \<in> dom (blobs (sample_world all_approved fails_second)) \<and>
   (\<exists>w'. deleteDocument ''r1'' (sample_doc ''c'' ''identity'' approved)
           (sample_world all_approved fails_second) = (Inl unavailable, w') \<and>
         blobs w' ''blob-c'' = None \<and>
         map_of (verification w' ''r1'') ''c'' = Some (DocData (sample_doc ''c'' ''identity'' approved)))"
proof -
  let ?w = "sample_world all_approved fails_second"
  let ?d = "sample_doc ''c'' ''identity'' approved"
  have s: "schedule ?w =
     \<lparr>elapsed = 3, failure = None\<rparr> # \<lparr>elapsed = 4, failure = Some unavailable\<rparr> # []"
    by (simp add: sample_world_def fails_second_def)
  have b: "fileUrl ?d \<in> dom (blobs ?w)"
    by (simp add: sample_world_def sample_doc_def all_approved_def)
  from deleteDocument_partial_failure [OF s b, of unavailable "''r1''"]
  obtain w' where 1: "deleteDocument ''r1'' ?d ?w = (Inl unavailable, w')"
    and 2: "blobs w' = (blobs ?w)(fileUrl ?d := None)"
    and 3: "verification w' = verification ?w"
    by auto
  from 2 have "blobs w' ''blob-c'' = None"
    by (simp add: sample_doc_def)
  moreover from 3 have "map_of (verification w' ''r1'') ''c'' = Some (DocData ?d)"
    by (simp add: sample_world_def all_approved_def)
  ultimately show ?thesis using s b 1 by auto
qed

lemma documents_of_Nil [simp]: "documents_of [] = []"
  by (simp add: documents_of_def)

lemma documents_of_Cons [simp]:
  "documents_of ((k, x) # coll) =
     (case x of
        DocData d \<Rightarrow> if type_doc d \<noteq> [] then d # documents_of coll else documents_of coll
      | StatusData s \<Rightarrow> documents_of coll)"
  by (cases x) (simp_all add: documents_of_def)

lemma in_documents_of:
  "d \<in> set (documents_of coll) \<Longrightarrow> \<exists>k. (k, DocData d) \<in> set coll"
  by (induction coll) (fastforce split: stored.splits if_splits)+

lemma no_approved_after_delete:
  assumes "approved_ids t coll = [k]"
  shows "\<not> has_approved (documents_of (AList.delete k coll)) t"
proof
  assume "has_approved (documents_of (AList.delete k coll)) t"
  then obtain d where d: "d \<in> set (documents_of (AList.delete k coll))"
    and a: "type_doc d = t" "status d = approved"
    by (auto simp: has_approved_def)
  from in_documents_of [OF d] obtain k' where "(k', DocData d) \<in> set (AList.delete k coll)" ..
  then have k': "(k', DocData d) \<in> set coll" "k' \<noteq> k"
    by (auto simp: AList.delete_eq)
  with a have "k' \<in> set (approved_ids t coll)"
    by (force simp: approved_ids_def)
  with assms k' show False by simp
qed

lemma deleteDocument_ok:
  assumes "fileUrl d \<in> dom (blobs w)"
    and "no_failures (take (Suc (Suc (Suc (Suc n)))) (schedule w))"
  shows "\<exists>t w'. deleteDocument r d w = (Inr (), w') \<and>
           blobs w' = (blobs w)(fileUrl d := None) \<and>
           verification w' r =
             AList.update ''status''
               (StatusData (compute_status (documents_of (AList.delete (id_doc d) (verification w r))) t))
               (AList.delete (id_doc d) (verification w r))"
proof -
  define w1 where "w1 = (tick w)\<lparr>blobs := (blobs w)(fileUrl d := None)\<rparr>"
  define w2 where "w2 = (tick w1)\<lparr>verification := (verification w)
        (r := AList.delete (id_doc d) (verification w r))\<rparr>"
  have 1: "deleteObject (fileUrl d) w = (Inr (), w1)"
    using assms(1) by (simp add: deleteObject_def external_ok [OF assms(2)] w1_def)
  have s1: "no_failures (take (Suc (Suc (Suc n))) (schedule w1))"
    using assms(2) by (simp add: w1_def no_failures_tl)
  have v1: "verification w1 = verification w"
    by (simp add: w1_def)
  have 2: "deleteDoc r (id_doc d) w1 = (Inr (), w2)"
    by (simp add: deleteDoc_def external_ok [OF s1] w2_def v1)
  have s2: "no_failures (take (Suc (Suc n)) (schedule w2))"
    using s1 by (simp add: w2_def no_failures_tl)
  show ?thesis
    by (simp add: deleteDocument_def catch_log_rethrow_def bind_def 1 2
        updateVerificationStatus_ok [OF s2] return_def)
       (auto simp: w2_def w1_def)
qed

text \<open>
  C5. Let the collection of a restaurant hold exactly one approved document of a required
  type, under the id of the document passed to \<^verbatim>\<open>deleteDocument\<close>, let the blob of
  the document exist and let the four store calls not fail. Then \<^verbatim>\<open>deleteDocument\<close>
  returns, and the status record it leaves is not verified and has the type among its
  pending ones. This holds whatever the status was before, so also when it was verified.
\<close>
theorem delete_only_approved:
  assumes "approved_ids t (verification w r) = [id_doc d]"
    and "t \<in> set required_types"
    and "fileUrl d \<in> dom (blobs w)"
    and "no_failures (take 4 (schedule w))"
  shows "\<exists>s w'. deleteDocument r d w = (Inr (), w') \<and>
           status_record w' r = Some (StatusData s) \<and>
           \<not> isVerified s \<and> t \<in> set (pendingDocuments s)"
proof -
  from assms(4) have "no_failures (take (Suc (Suc (Suc (Suc 0)))) (schedule w))"
    by (simp add: eval_nat_numeral)
  from deleteDocument_ok [OF assms(3) this, of r]
  obtain t' w' where 1: "deleteDocument r d w = (Inr (), w')"
    and 2: "verification w' r =
             AList.update ''status''
               (StatusData (compute_status (documents_of (AList.delete (id_doc d) (verification w r))) t'))
               (AList.delete (id_doc d) (verification w r))"
    by blast
  let ?s = "compute_status (documents_of (AList.delete (id_doc d) (verification w r))) t'"
  from 2 have 3: "status_record w' r = Some (StatusData ?s)"
    by (simp add: status_record_def AList.update_conv')
  from no_approved_after_delete [OF assms(1)] assms(2)
  have 4: "t \<in> set (pendingDocuments ?s)"
    by (simp add: compute_status_pending)
  with assms(2) have "\<not> isVerified ?s"
    using compute_status_invariant [of "documents_of (AList.delete (id_doc d) (verification w r))" t']
    by (auto simp: status_invariant_def)
  with 1 3 4 show ?thesis by blast
qed

theorem delete_only_approved_witness:
  "status_record (sample_world verified_restaurant []) ''r1'' = Some (StatusData stored_status) \<and>
   isVerified stored_status \<and>
   approved_ids ''identity'' (verification (sample_world verified_restaurant []) ''r1'') =
     [id_doc (sample_doc ''c'' ''identity'' approved)] \<and>
   ''identity'' \<in> set required_types \<and>
   fileUrl (sample_doc ''c'' ''identity'' approved) \<in> dom (blobs (sample_world verified_restaurant [])) \<and>
   no_failures (take 4 (schedule (sample_world verified_restaurant []))) \<and>
   (\<exists>s w'. deleteDocument ''r1'' (sample_doc ''c'' ''identity'' approved)
             (sample_world verified_restaurant []) = (Inr (), w') \<and>
           status_record w' ''r1'' = Some (StatusData s) \<and>
           \<not> isVerified s \<and> ''identity'' \<in> set (pendingDocuments s))"
proof -
  let ?w = "sample_world verified_restaurant []"
  let ?d = "sample_doc ''c'' ''identity'' approved"
  have 0: "status_record ?w ''r1'' = Some (StatusData stored_status) \<and> isVerified stored_status"
    by (simp add: status_record_def sample_world_def verified_restaurant_def all_approved_def
        stored_status_def)
  have 1: "approved_ids ''identity'' (verification ?w ''r1'') = [id_doc ?d]"
    by (simp add: approved_ids_def sample_world_def verified_restaurant_def all_approved_def
        sample_doc_def)
  have 2: "''identity'' \<in> set required_types"
    by (simp add: required_types_def)
  have 3: "fileUrl ?d \<in> dom (blobs ?w)"
    by (simp add: sample_world_def verified_restaurant_def all_approved_def sample_doc_def)
  have 4: "no_failures (take 4 (schedule ?w))"
    by (simp add: sample_world_def no_failures_def)
  from delete_only_approved [OF 1 2 3 4] 0 1 2 3 4 show ?thesis
    by blast
qed

section \<open>Listing the documents\<close>

lemma as_document_typed:
  "well_typed kx \<Longrightarrow> as_document kx = typed_record kx"
  by (cases kx rule: well_typed.cases) simp_all

lemma documents_of_typed:
  "list_all well_typed coll \<Longrightarrow> documents_of coll = List.map_filter typed_record coll"
  by (induction coll) (simp_all add: documents_of_def as_document_typed split: option.splits)

lemma documents_of_update_status:
  "documents_of coll = [] \<Longrightarrow> documents_of (AList.update k (StatusData s) coll) = []"
  by (induction coll) (auto split: stored.splits if_splits)

lemma documents_of_update_doc:
  "documents_of coll = [] \<Longrightarrow> type_doc d \<noteq> [] \<Longrightarrow>
   documents_of (AList.update k (DocData d) coll) = [d]"
  by (induction coll) (auto split: stored.splits if_splits)

lemma documents_of_first_upload:
  "documents_of coll = [] \<Longrightarrow> type_doc d \<noteq> [] \<Longrightarrow> k \<noteq> k' \<Longrightarrow>
   documents_of (AList.update k' (StatusData s) (AList.update k (DocData d) coll)) = [d]"
  by (induction coll)
     (auto simp: documents_of_update_status documents_of_update_doc split: stored.splits if_splits)

lemma uploadDocument_ok:
  assumes "no_failures (take (Suc (Suc (Suc (Suc (Suc n))))) (schedule w))"
    and defined: "expiry \<noteq> None \<or> ignoreUndefinedProperties w"
  shows "\<exists>key t1 t2 w'.
           uploadDocument autoId r f ty expiry w =
             (Inr \<lparr> id_doc = autoId, type_doc = ty, status = pending, fileUrl = key,
                    fileName = name f, uploadedAt = t1, expiryDate = expiry \<rparr>, w') \<and>
           verification w' r =
             AList.update ''status''
               (StatusData (compute_status (documents_of
                  (AList.update autoId (DocData \<lparr> id_doc = autoId, type_doc = ty, status = pending,
                     fileUrl = key, fileName = name f, uploadedAt = t1, expiryDate = expiry \<rparr>)
                     (verification w r))) t2))
               (AList.update autoId (DocData \<lparr> id_doc = autoId, type_doc = ty, status = pending,
                     fileUrl = key, fileName = name f, uploadedAt = t1, expiryDate = expiry \<rparr>)
                     (verification w r)) \<and>
           schedule w' = drop 5 (schedule w)"
proof -
  define key where "key = storage_key r ty (clock w)"
  define w1 where "w1 = (tick w)\<lparr>blobs := (blobs w)(key \<mapsto> f)\<rparr>"
  define w2 where "w2 = tick w1"
  define doc where "doc = \<lparr> id_doc = autoId, type_doc = ty, status = pending, fileUrl = key,
                    fileName = name f, uploadedAt = clock w2, expiryDate = expiry \<rparr>"
  define w3 where "w3 = (tick w2)\<lparr>verification := (verification w)
        (r := AList.update autoId (DocData doc) (verification w r))\<rparr>"
  have 1: "uploadBytes key f w = (Inr (), w1)"
    by (simp add: uploadBytes_def external_ok [OF assms(1)] w1_def)
  have s1: "no_failures (take (Suc (Suc (Suc (Suc n)))) (schedule w1))"
    using assms(1) by (simp add: w1_def no_failures_tl)
  have b1: "key \<in> dom (blobs (tick w1))"
    by (simp add: w1_def)
  have 2: "getDownloadURL key w1 = (Inr key, w2)"
    using b1 by (simp add: getDownloadURL_def external_ok [OF s1] w2_def)
  have s2: "no_failures (take (Suc (Suc (Suc n))) (schedule w2))"
    using s1 by (simp add: w2_def no_failures_tl)
  have v2: "verification w2 = verification w"
    by (simp add: w2_def w1_def)
  have u2: "(has_undefined (DocData doc) \<and> \<not> ignoreUndefinedProperties w2) = False"
    using defined by (auto simp: doc_def w2_def w1_def)
  have 3: "setDoc r autoId (DocData doc) w2 = (Inr (), w3)"
    by (simp only: setDoc_def u2 if_False) (simp add: external_ok [OF s2] w3_def v2)
  have s3: "no_failures (take (Suc (Suc n)) (schedule w3))"
    using s2 by (simp add: w3_def no_failures_tl)
  have v3: "verification w3 r = AList.update autoId (DocData doc) (verification w r)"
    by (simp add: w3_def)
  have d3: "schedule w3 = tl (tl (tl (schedule w)))"
    by (simp add: w3_def w2_def w1_def)
  have d5: "tl (tl (tl (tl (tl xs)))) = drop 5 xs" for xs :: "outcome list"
    by (simp add: drop_Suc eval_nat_numeral tl_drop)
  have "uploadDocument autoId r f ty expiry w =
          (Inr doc, (tick (tick w3))\<lparr>verification := (verification w3)
        (r := AList.update ''status''
           (StatusData (compute_status (documents_of (verification w3 r)) (clock (tick w3))))
           (verification w3 r))\<rparr>)"
    using 1 2 3
    by (simp add: uploadDocument_def catch_log_rethrow_def bind_def now_def Let_def return_def
        updateVerificationStatus_ok [OF s3] key_def [symmetric] doc_def [symmetric])
  then show ?thesis
    unfolding v3 doc_def
    by (intro exI [of _ key] exI [of _ "clock w2"] exI [of _ "clock (tick w3)"] exI conjI)
       (assumption, simp_all add: v3 doc_def d3 d5)
qed

text \<open>
  Called without an expiry date on a client with the default setting, \<^verbatim>\<open>uploadDocument\<close>
  stores the blob and then ends in the error of \<^verbatim>\<open>setDoc\<close>: no record is written.
\<close>
lemma uploadDocument_undefined_refused:
  assumes "no_failures (take (Suc (Suc n)) (schedule w))"
    and "\<not> ignoreUndefinedProperties w"
  shows "\<exists>w'. uploadDocument autoId r f ty None w = (Inl invalid_data, w') \<and>
           verification w' = verification w \<and>
           blobs w' = (blobs w)(storage_key r ty (clock w) \<mapsto> f)"
proof -
  define key where "key = storage_key r ty (clock w)"
  define w1 where "w1 = (tick w)\<lparr>blobs := (blobs w)(key \<mapsto> f)\<rparr>"
  define w2 where "w2 = tick w1"
  have 1: "uploadBytes key f w = (Inr (), w1)"
    by (simp add: uploadBytes_def external_ok [OF assms(1)] w1_def)
  have s1: "no_failures (take (Suc n) (schedule w1))"
    using assms(1) by (simp add: w1_def no_failures_tl)
  have b1: "key \<in> dom (blobs (tick w1))"
    by (simp add: w1_def)
  have 2: "getDownloadURL key w1 = (Inr key, w2)"
    using b1 by (simp add: getDownloadURL_def external_ok [OF s1] w2_def)
  have i2: "\<not> ignoreUndefinedProperties w2"
    using assms(2) by (simp add: w2_def w1_def)
  have 3: "setDoc r autoId (DocData \<lparr> id_doc = autoId, type_doc = ty, status = pending,
              fileUrl = key, fileName = name f, uploadedAt = clock w2, expiryDate = None \<rparr>) w2
           = (Inl invalid_data, w2\<lparr>thrown := thrown w2 @ [invalid_data]\<rparr>)"
    using i2 by (simp add: setDoc_def throw_def)
  have "uploadDocument autoId r f ty None w =
          (Inl invalid_data, w2\<lparr>thrown := thrown w2 @ [invalid_data],
             console := console w2 @ [(''Error uploading document:'', invalid_data)]\<rparr>)"
    using 1 2 3
    by (simp add: uploadDocument_def catch_log_rethrow_def bind_def now_def Let_def
        key_def [symmetric])
  then show ?thesis
    by (simp add: w2_def w1_def key_def)
qed

lemma no_failures_drop:
  "no_failures (take (n + m) ocs) \<Longrightarrow> no_failures (take m (drop n ocs))"
  by (simp add: take_add no_failures_def)

text \<open>
  C6. On a collection whose documents have a type that is not the empty text, as the data
  model has it, \<^verbatim>\<open>getDocuments\<close> returns exactly the records that have a \<^verbatim>\<open>type\<close>
  field, in the order of the collection, and changes no record. And when a restaurant has
  no document yet, uploading one of type \<^verbatim>\<open>identity\<close> under a fresh id and then
  calling \<^verbatim>\<open>getDocuments\<close> returns exactly that one document, of type
  \<^verbatim>\<open>identity\<close> and pending, although the collection now holds the status record too.
  The upload is one that the document store accepts: it comes with an expiry date, or the
  client is set to ignore undefined fields.
\<close>
theorem getDocuments_excludes_status:
  "(no_failures (take 1 (schedule w)) \<and> list_all well_typed (verification w r) \<longrightarrow>
      (\<exists>w'. getDocuments r w = (Inr (List.map_filter typed_record (verification w r)), w') \<and>
            verification w' = verification w)) \<and>
   (documents_of (verification w r) = [] \<and> autoId \<noteq> ''status'' \<and>
    (expiry \<noteq> None \<or> ignoreUndefinedProperties w) \<and>
    no_failures (take 6 (schedule w)) \<longrightarrow>
      (\<exists>doc w1 w2. uploadDocument autoId r f ''identity'' expiry w = (Inr doc, w1) \<and>
            getDocuments r w1 = (Inr [doc], w2) \<and>
            id_doc doc = autoId \<and> type_doc doc = ''identity'' \<and> status doc = pending \<and>
            (\<exists>s. status_record w1 r = Some (StatusData s))))"
proof (intro conjI impI)
  assume a: "no_failures (take 1 (schedule w)) \<and> list_all well_typed (verification w r)"
  then have "no_failures (take (Suc 0) (schedule w))" by simp
  from getDocuments_ok [OF this, of r] a
  show "\<exists>w'. getDocuments r w = (Inr (List.map_filter typed_record (verification w r)), w') \<and>
            verification w' = verification w"
    by (simp add: documents_of_typed)
next
  assume a: "documents_of (verification w r) = [] \<and> autoId \<noteq> ''status'' \<and>
    (expiry \<noteq> None \<or> ignoreUndefinedProperties w) \<and>
    no_failures (take 6 (schedule w))"
  then have defined: "expiry \<noteq> None \<or> ignoreUndefinedProperties w" by simp
  from a have 5: "no_failures (take (Suc (Suc (Suc (Suc (Suc (Suc 0)))))) (schedule w))"
    by (simp add: eval_nat_numeral)
  from a have "no_failures (take (5 + 1) (schedule w))" by simp
  then have 1: "no_failures (take 1 (drop 5 (schedule w)))"
    by (rule no_failures_drop)
  from uploadDocument_ok [OF 5 defined, where autoId = autoId and r = r and f = f
      and ty = "''identity''"]
  obtain key t1 t2 w1 where
    u: "uploadDocument autoId r f ''identity'' expiry w =
             (Inr \<lparr> id_doc = autoId, type_doc = ''identity'', status = pending, fileUrl = key,
                    fileName = name f, uploadedAt = t1, expiryDate = expiry \<rparr>, w1)"
    and v: "verification w1 r =
             AList.update ''status''
               (StatusData (compute_status (documents_of
                  (AList.update autoId (DocData \<lparr> id_doc = autoId, type_doc = ''identity'',
                     status = pending, fileUrl = key, fileName = name f, uploadedAt = t1,
                     expiryDate = expiry \<rparr>)
                     (verification w r))) t2))
               (AList.update autoId (DocData \<lparr> id_doc = autoId, type_doc = ''identity'',
                     status = pending, fileUrl = key, fileName = name f, uploadedAt = t1,
                     expiryDate = expiry \<rparr>)
                     (verification w r))"
    and s: "schedule w1 = drop 5 (schedule w)"
    by blast
  let ?doc = "\<lparr> id_doc = autoId, type_doc = ''identity'', status = pending, fileUrl = key,
                fileName = name f, uploadedAt = t1, expiryDate = expiry \<rparr>"
  from 1 s have "no_failures (take (Suc 0) (schedule w1))" by simp
  from getDocuments_ok [OF this, of r]
  have "getDocuments r w1 = (Inr (documents_of (verification w1 r)), tick w1)" .
  moreover from a have "documents_of (verification w1 r) = [?doc]"
    unfolding v by (intro documents_of_first_upload) simp_all
  ultimately have g: "getDocuments r w1 = (Inr [?doc], tick w1)" by simp
  have "\<exists>s. status_record w1 r = Some (StatusData s)"
    unfolding status_record_def v by (simp add: AList.update_conv')
  with u g show "\<exists>doc w1 w2. uploadDocument autoId r f ''identity'' expiry w = (Inr doc, w1) \<and>
            getDocuments r w1 = (Inr [doc], w2) \<and>
            id_doc doc = autoId \<and> type_doc doc = ''identity'' \<and> status doc = pending \<and>
            (\<exists>s. status_record w1 r = Some (StatusData s))"
    by (intro exI [of _ ?doc] exI [of _ w1] exI [of _ "tick w1"]) simp
qed

theorem getDocuments_excludes_status_witness:
  "no_failures (take 1 (schedule (sample_world verified_restaurant []))) \<and>
   list_all well_typed (verification (sample_world verified_restaurant []) ''r1'') \<and>
   fst (getDocuments ''r1'' (sample_world verified_restaurant [])) =
     Inr [sample_doc ''a'' ''business_license'' approved, sample_doc ''b'' ''food_permit'' approved,
          sample_doc ''c'' ''identity'' approved] \<and>
   documents_of (verification (sample_world [] []) ''r1'') = [] \<and>
   ''Zq3kXv9LmT2bYw8RpN5c'' \<noteq> ''status'' \<and>
   \<not> ignoreUndefinedProperties (sample_world [] []) \<and>
   no_failures (take 6 (schedule (sample_world [] []))) \<and>
   (\<exists>doc w1 w2. uploadDocument ''Zq3kXv9LmT2bYw8RpN5c'' ''r1'' sample_file ''identity''
                  (Some ''2027-12-31'') (sample_world [] []) = (Inr doc, w1) \<and>
      getDocuments ''r1'' w1 = (Inr [doc], w2) \<and>
      id_doc doc = ''Zq3kXv9LmT2bYw8RpN5c'' \<and> type_doc doc = ''identity'' \<and> status doc = pending \<and>
      (\<exists>s. status_record w1 ''r1'' = Some (StatusData s)))"
proof -
  let ?v = "sample_world verified_restaurant []"
  let ?w = "sample_world [] []"
  have a: "no_failures (take 1 (schedule ?v)) \<and> list_all well_typed (verification ?v ''r1'')"
    by (simp add: sample_world_def no_failures_def verified_restaurant_def all_approved_def
        sample_doc_def)
  have b: "documents_of (verification ?w ''r1'') = [] \<and> ''Zq3kXv9LmT2bYw8RpN5c'' \<noteq> ''status'' \<and>
           (Some ''2027-12-31'' \<noteq> None \<or> ignoreUndefinedProperties ?w) \<and>
           no_failures (take 6 (schedule ?w))"
    by (simp add: sample_world_def no_failures_def)
  have i: "\<not> ignoreUndefinedProperties ?w"
    by (simp add: sample_world_def)
  have c: "List.map_filter typed_record (verification ?v ''r1'') =
     [sample_doc ''a'' ''business_license'' approved, sample_doc ''b'' ''food_permit'' approved,
      sample_doc ''c'' ''identity'' approved]"
    by (simp add: sample_world_def verified_restaurant_def all_approved_def)
  from getDocuments_excludes_status [where w = ?v and r = "''r1''"] a
  obtain w' where "getDocuments ''r1'' ?v =
      (Inr (List.map_filter typed_record (verification ?v ''r1'')), w')"
    by blast
  then have 1: "fst (getDocuments ''r1'' ?v) =
     Inr [sample_doc ''a'' ''business_license'' approved, sample_doc ''b'' ''food_permit'' approved,
          sample_doc ''c'' ''identity'' approved]"
    by (simp only: c fst_conv)
  from getDocuments_excludes_status [where w = ?w and r = "''r1''"
      and autoId = "''Zq3kXv9LmT2bYw8RpN5c''" and f = sample_file
      and expiry = "Some ''2027-12-31''"] b
  have 2: "\<exists>doc w1 w2. uploadDocument ''Zq3kXv9LmT2bYw8RpN5c'' ''r1'' sample_file ''identity''
                  (Some ''2027-12-31'') ?w = (Inr doc, w1) \<and>
      getDocuments ''r1'' w1 = (Inr [doc], w2) \<and>
      id_doc doc = ''Zq3kXv9LmT2bYw8RpN5c'' \<and> type_doc doc = ''identity'' \<and> status doc = pending \<and>
      (\<exists>s. status_record w1 ''r1'' = Some (StatusData s))"
    by blast
  from a b i 1 2 show ?thesis by blast
qed

section \<open>Submitting the settings\<close>

lemma filled_page_populated: "list_all (populated (settings filled_page)) required_fields"
  by (simp add: filled_page_def handleChange_def initial_page_def populated_def
      required_fields_def)

lemma loaded_eq:
  "loaded = (initial_page\<lparr>settings := ahead_record, loading := False\<rparr>,
             users_world [''u1'' \<mapsto> ahead_record])"
  by (simp add: loaded_def fetchSettings_def getUserDoc_def external_def users_world_def)

lemma loaded_populated: "list_all (populated (settings (fst loaded))) required_fields"
  by (simp add: loaded_eq ahead_record_def populated_def required_fields_def)

text \<open>
  C7 as it is stated fails at two inputs. A user whose record in \<^verbatim>\<open>users\<close> does not
  exist fills in every required field and submits: \<^verbatim>\<open>updateDoc\<close> is refused, the page
  shows the failure, and a read that follows finds no record, so none of the submitted
  values. And a user whose record was last written at a time that the clock of this
  browser has not reached loads the page and submits: the record then holds the reading
  of this clock as \<^verbatim>\<open>lastUpdated\<close>, which is earlier than the one stored before.
\<close>
theorem submit_not_round_trip:
  "list_all (populated (settings filled_page)) required_fields \<and>
   users (users_world Map.empty) ''u1'' = None \<and>
   users (snd (handleSubmit (Some ''u1'') filled_page (users_world Map.empty))) ''u1'' = None \<and>
   error (fst (handleSubmit (Some ''u1'') filled_page (users_world Map.empty))) =
     ''Failed to update settings'' \<and>
   list_all (populated (settings (fst loaded))) required_fields \<and>
   stored_field (snd loaded) ''u1'' ''lastUpdated'' = Some (Time 1500) \<and>
   success (fst (handleSubmit (Some ''u1'') (fst loaded) (snd loaded))) =
     ''Settings updated successfully'' \<and>
   stored_field (snd (handleSubmit (Some ''u1'') (fst loaded) (snd loaded))) ''u1'' ''lastUpdated'' =
     Some (Time 1000)"
proof -
  have 1: "users (users_world Map.empty) ''u1'' = None \<and>
   users (snd (handleSubmit (Some ''u1'') filled_page (users_world Map.empty))) ''u1'' = None \<and>
   error (fst (handleSubmit (Some ''u1'') filled_page (users_world Map.empty))) =
     ''Failed to update settings''"
    by (simp add: handleSubmit_def bind_def now_def updateDoc_def external_def throw_def
        users_world_def Let_def)
  have 2: "stored_field (snd loaded) ''u1'' ''lastUpdated'' = Some (Time 1500)"
    by (simp add: loaded_eq stored_field_def users_world_def ahead_record_def)
  have 3: "success (fst (handleSubmit (Some ''u1'') (fst loaded) (snd loaded))) =
     ''Settings updated successfully'' \<and>
   stored_field (snd (handleSubmit (Some ''u1'') (fst loaded) (snd loaded))) ''u1'' ''lastUpdated'' =
     Some (Time 1000)"
    by (simp add: loaded_eq handleSubmit_def bind_def now_def updateDoc_def external_def
        users_world_def Let_def stored_field_def)
  from filled_page_populated loaded_populated 1 2 3 show ?thesis
    by simp
qed

text \<open>
  C7, amended. When the record of the user exists and the calls of the store do not fail,
  \<^verbatim>\<open>handleSubmit\<close> sets in that record every field of the form state to its current
  value and \<^verbatim>\<open>lastUpdated\<close> to the reading of the clock at submission, keeps the other
  fields of the record, and reports success; a read by \<^verbatim>\<open>fetchSettings\<close> that follows
  returns that record. The \<^verbatim>\<open>lastUpdated\<close> it then holds is strictly later than the one
  stored before whenever that one was earlier than the reading of the clock at submission.
  When the record does not exist, nothing is written to \<^verbatim>\<open>users\<close> and the page reports
  that the update failed.
\<close>
theorem handleSubmit_merges:
  "(users w uid = Some old \<and> no_failures (take 2 (schedule w)) \<longrightarrow>
      (\<exists>p' w'. handleSubmit (Some uid) p w = (p', w') \<and>
         users w' uid = Some (old ++ (settings p)(''lastUpdated'' \<mapsto> Time (clock w))) \<and>
         success p' = ''Settings updated successfully'' \<and>
         settings (fst (fetchSettings (Some uid) q w')) =
           old ++ (settings p)(''lastUpdated'' \<mapsto> Time (clock w)) \<and>
         (old ''lastUpdated'' = Some (Time t0) \<and> t0 < clock w \<longrightarrow>
            (\<exists>t. stored_field w' uid ''lastUpdated'' = Some (Time t) \<and> t0 < t)))) \<and>
   (users w uid = None \<longrightarrow>
      (\<exists>p' w'. handleSubmit (Some uid) p w = (p', w') \<and> users w' = users w \<and>
         error p' = ''Failed to update settings''))"
proof (intro conjI impI)
  assume a: "users w uid = Some old \<and> no_failures (take 2 (schedule w))"
  define m where "m = old ++ (settings p)(''lastUpdated'' \<mapsto> Time (clock w))"
  define w1 where "w1 = (tick w)\<lparr>users := (users w)(uid \<mapsto> m)\<rparr>"
  from a have 1: "no_failures (take (Suc (Suc 0)) (schedule w))"
    by (simp add: numeral_2_eq_2)
  then have 2: "no_failures (take (Suc 0) (schedule w1))"
    by (simp add: w1_def no_failures_tl)
  from a have u: "updateDoc uid ((settings p)(''lastUpdated'' \<mapsto> Time (clock w))) w = (Inr (), w1)"
    by (simp add: updateDoc_def external_ok [OF 1] w1_def m_def)
  have s: "handleSubmit (Some uid) p w =
      (p\<lparr>saving := False, error := [], success := ''Settings updated successfully''\<rparr>, w1)"
    by (simp add: handleSubmit_def bind_def now_def Let_def u)
  have f: "fetchSettings (Some uid) q w1 = (q\<lparr>settings := m, loading := False\<rparr>, tick w1)"
    by (simp add: fetchSettings_def getUserDoc_def external_ok [OF 2]) (simp add: w1_def)
  have r: "users w1 uid = Some m"
    by (simp add: w1_def)
  have l: "stored_field w1 uid ''lastUpdated'' = Some (Time (clock w))"
    by (simp add: stored_field_def w1_def m_def)
  then have "old ''lastUpdated'' = Some (Time t0) \<and> t0 < clock w \<longrightarrow>
            (\<exists>t. stored_field w1 uid ''lastUpdated'' = Some (Time t) \<and> t0 < t)"
    by simp
  with s f r show "\<exists>p' w'. handleSubmit (Some uid) p w = (p', w') \<and>
         users w' uid = Some (old ++ (settings p)(''lastUpdated'' \<mapsto> Time (clock w))) \<and>
         success p' = ''Settings updated successfully'' \<and>
         settings (fst (fetchSettings (Some uid) q w')) =
           old ++ (settings p)(''lastUpdated'' \<mapsto> Time (clock w)) \<and>
         (old ''lastUpdated'' = Some (Time t0) \<and> t0 < clock w \<longrightarrow>
            (\<exists>t. stored_field w' uid ''lastUpdated'' = Some (Time t) \<and> t0 < t))"
    unfolding m_def [symmetric] by simp
next
  assume a: "users w uid = None"
  then show "\<exists>p' w'. handleSubmit (Some uid) p w = (p', w') \<and> users w' = users w \<and>
         error p' = ''Failed to update settings''"
    by (auto simp: handleSubmit_def bind_def now_def updateDoc_def external_def throw_def Let_def
        split: list.splits option.splits)
qed

theorem handleSubmit_merges_witness:
  "users (users_world [''u1'' \<mapsto> old_record]) ''u1'' = Some old_record \<and>
   no_failures (take 2 (schedule (users_world [''u1'' \<mapsto> old_record]))) \<and>
   old_record ''lastUpdated'' = Some (Time 500) \<and>
   500 < clock (users_world [''u1'' \<mapsto> old_record]) \<and>
   (\<exists>p' w' m t. handleSubmit (Some ''u1'') filled_page (users_world [''u1'' \<mapsto> old_record]) = (p', w') \<and>
      users w' ''u1'' = Some m \<and>
      m ''restaurantName'' = Some (Text ''Mama Put'') \<and>
      m ''phone'' = Some (Text ''08012345678'') \<and>
      m ''role'' = Some (Text ''restaurant'') \<and>
      m ''lastUpdated'' = Some (Time 1000) \<and>
      stored_field w' ''u1'' ''lastUpdated'' = Some (Time t) \<and> 500 < t)"
proof -
  let ?w = "users_world [''u1'' \<mapsto> old_record]"
  let ?m = "old_record ++ (settings filled_page)(''lastUpdated'' \<mapsto> Time (clock ?w))"
  have a: "users ?w ''u1'' = Some old_record \<and> no_failures (take 2 (schedule ?w))"
    by (simp add: users_world_def no_failures_def)
  have b: "old_record ''lastUpdated'' = Some (Time 500) \<and> 500 < clock ?w"
    by (simp add: old_record_def users_world_def)
  have m: "?m ''restaurantName'' = Some (Text ''Mama Put'') \<and>
      ?m ''phone'' = Some (Text ''08012345678'') \<and>
      ?m ''role'' = Some (Text ''restaurant'') \<and>
      ?m ''lastUpdated'' = Some (Time 1000)"
    by (simp add: old_record_def filled_page_def handleChange_def initial_page_def
        users_world_def map_add_def)
  from handleSubmit_merges [where w = ?w and uid = "''u1''" and old = old_record
      and p = filled_page and ?t0.0 = 500] a b
  obtain p' w' t where "handleSubmit (Some ''u1'') filled_page ?w = (p', w')"
    and "users w' ''u1'' = Some ?m"
    and "stored_field w' ''u1'' ''lastUpdated'' = Some (Time t)" and "500 < t"
    by blast
  then have "\<exists>p' w' m t. handleSubmit (Some ''u1'') filled_page ?w = (p', w') \<and>
      users w' ''u1'' = Some m \<and>
      m ''restaurantName'' = Some (Text ''Mama Put'') \<and>
      m ''phone'' = Some (Text ''08012345678'') \<and>
      m ''role'' = Some (Text ''restaurant'') \<and>
      m ''lastUpdated'' = Some (Time 1000) \<and>
      stored_field w' ''u1'' ''lastUpdated'' = Some (Time t) \<and> 500 < t"
    using m by (intro exI [of _ p'] exI [of _ w'] exI [of _ ?m] exI [of _ t]) blast
  with a b show ?thesis by blast
qed

end
